theory Spec2Isabelle
  imports Main
begin

section \<open>The Go analyzer: analyzers/golang/golang.go\<close>

text \<open>
  The analyzer is a thin layer over three collaborators that live outside the file:
  the option decoder (\<open>mapstructure.Decode\<close>), the command locator (\<open>exec.Which\<close>
  together with \<open>os.Getenv\<close>) and the toolchain adapter (\<open>gocmd.Go\<close> with its methods
  \<open>Clean\<close>, \<open>Build\<close> and \<open>ListOne\<close>). Each of them is a parameter of the model, so
  that every statement below holds for whatever these collaborators compute.
\<close>

subsection \<open>Values\<close>

text \<open>A Go \<open>error\<close> value; a function returning \<open>error\<close> returns \<open>error option\<close>,
  with \<open>None\<close> for \<open>nil\<close>.\<close>

datatype error = Err string

text \<open>A Go map with string keys is either \<open>nil\<close> (\<open>None\<close>) or allocated (\<open>Some\<close> of its
  bindings). \<open>make(map[string]T)\<close> allocates a map with no binding; storing into a
  \<open>nil\<close> map panics, storing into an allocated one adds the binding.\<close>

type_synonym 'v gomap = "(string \<rightharpoonup> 'v) option"

definition make_map :: "'v gomap" where
  "make_map = Some Map.empty"

definition map_store :: "'v gomap \<Rightarrow> string \<Rightarrow> 'v \<Rightarrow> error + 'v gomap" where
  "map_store mp k v =
     (case mp of
        None \<Rightarrow> Inl (Err ''assignment to entry in nil map'')
      | Some b \<Rightarrow> Inr (Some (b(k \<mapsto> v))))"

text \<open>\<open>gocmd.Go\<close>: the handle of the build tool, as \<open>New\<close> fills it.\<close>

record Go =
  Cmd :: string
  Dir :: string

text \<open>\<open>module.Module\<close>: the fields the analyzer reads. \<open>Options\<close> is the raw option
  table, of a type \<open>'o\<close> that only the decoder inspects.\<close>

record 'o Module =
  Dir :: string
  BuildTarget :: string
  Options :: 'o

text \<open>\<open>Options\<close>: the decoded analyzer options, field by field.\<close>

record Options =
  Tags :: "string list"
  AllTags :: bool
  Strategy :: string
  LockfilePath :: string
  ManifestPath :: string
  AllowUnresolved :: bool
  AllowUnresolvedPrefix :: string
  AllowNestedVendor :: bool
  AllowDeepVendor :: bool
  AllowExternalVendor :: bool
  AllowExternalVendorPrefix :: string
  ModulesVendor :: bool
  SkipImportTracing :: bool
  SkipProject :: bool

text \<open>\<open>gocmd.Package\<close>: the record \<open>ListOne\<close> returns. The analyzer reads its \<open>Error\<close>
  field only, \<open>None\<close> for a \<open>nil\<close> per-package error.\<close>

record Package =
  ImportPath :: string
  Error :: "string option"

text \<open>\<open>Analyzer\<close>; \<open>'r\<close> and \<open>'p\<close> are the types of resolvers and projects.\<close>

record ('o, 'r, 'p) Analyzer =
  Go :: Go
  GoVersion :: string
  Module :: "'o Module"
  Options :: Options
  BuildTags :: "string list"
  resolverCache :: "'r gomap"
  projectCache :: "'p gomap"

definition osTags :: "string list" where
  "osTags = [''windows'', ''linux'', ''freebsd'', ''android'', ''darwin'', ''dragonfly'',
     ''nacl'', ''netbsd'', ''openbsd'', ''plan9'', ''solaris'']"

definition archTags :: "string list" where
  "archTags = [''386'', ''amd64'', ''amd64p32'', ''arm'', ''armbe'', ''arm64'', ''arm64be'',
     ''ppc64'', ''ppc64le'', ''mips'', ''mipsle'', ''mips64'', ''mips64le'', ''mips64p32'',
     ''mips64p32le'', ''ppc'', ''s390'', ''s390x'', ''sparc'', ''sparc64'']"

subsection \<open>New\<close>

text \<open>
  \<open>New decode which getenv m\<close>: \<open>decode\<close> stands for \<open>mapstructure.Decode\<close> into a fresh
  \<open>Options\<close>, \<open>which\<close> for \<open>exec.Which\<close> (its first argument is the argument passed to
  each candidate, its second the candidates in order; it returns the chosen command and
  its output), and \<open>getenv\<close> for \<open>os.Getenv\<close>. The two early returns of the source are
  the two \<open>Inl\<close> branches; the two \<open>append\<close> calls under \<open>AllTags\<close> and the final one
  are written in the order of the source.
\<close>

definition New ::
  "('o \<Rightarrow> error + Options) \<Rightarrow> (string \<Rightarrow> string list \<Rightarrow> error + string \<times> string) \<Rightarrow>
   (string \<Rightarrow> string) \<Rightarrow> 'o Module \<Rightarrow> error + ('o, 'r, 'p) Analyzer" where
  "New decode which getenv m =
     (case decode (Module.Options m) of
        Inl err \<Rightarrow> Inl err
      | Inr options \<Rightarrow>
          (case which ''version'' [getenv ''FOSSA_GO_CMD'', ''go''] of
             Inl err \<Rightarrow> Inl err
           | Inr (cmd, version) \<Rightarrow>
               (let tags = Tags options;
                    tags = (if AllTags options then (tags @ osTags) @ archTags else tags);
                    tags = tags @ ['''']
                in Inr \<lparr> Go = \<lparr> Cmd = cmd, Go.Dir = Module.Dir m \<rparr>,
                         GoVersion = version,
                         Module = m,
                         Options = options,
                         BuildTags = tags,
                         resolverCache = make_map,
                         projectCache = make_map \<rparr>)))"

text \<open>
  Modelled from the spec: \<open>exec.Which\<close> is not among the sources. The spec says that the
  command name is configurable via an environment variable and that absence of the tool
  is a fatal startup error; the call site passes the candidates in the order
  environment variable, then \<open>go\<close>. So \<open>Which run arg cmds\<close> runs each candidate with the
  one argument \<open>arg\<close>, returns the first candidate whose run succeeds together with its
  output, and fails when no candidate runs. \<open>run\<close> is the host: the output of running a
  command with an argument list, or the error of not being able to.
\<close>

fun Which :: "(string \<Rightarrow> string list \<Rightarrow> error + string) \<Rightarrow> string \<Rightarrow> string list \<Rightarrow>
    error + string \<times> string" where
  "Which run arg [] = Inl (Err ''could not resolve command'')"
| "Which run arg (c # cs) =
     (case run c [arg] of
        Inr out \<Rightarrow> Inr (c, out)
      | Inl err \<Rightarrow> Which run arg cs)"

subsection \<open>Clean, Build, IsBuilt\<close>

text \<open>
  The toolchain adapter runs subprocesses, so its operations act on a state \<open>'w\<close> of
  the host (the file system with its build artefacts): each takes the \<open>Go\<close> handle, its
  arguments and the state, and returns its result and the state it leaves; it reads the
  handle and does not write to it.
  \<open>go_ListOne\<close> takes the package, the flags (\<open>[]\<close> for the \<open>nil\<close> slice: the host world)
  and the vendor switch.
\<close>

record 'w Toolchain =
  go_Clean :: "Go \<Rightarrow> string list \<Rightarrow> 'w \<Rightarrow> error option \<times> 'w"
  go_Build :: "Go \<Rightarrow> string list \<Rightarrow> 'w \<Rightarrow> error option \<times> 'w"
  go_ListOne :: "Go \<Rightarrow> string \<Rightarrow> string list \<Rightarrow> bool \<Rightarrow> 'w \<Rightarrow> (error + Package) \<times> 'w"

text \<open>
  The three methods have a pointer receiver, so each returns, after its Go result, the
  analyzer as the call leaves it and the state of the host. \<open>IsBuilt\<close> returns the pair
  of the source: \<open>(false, err)\<close> or \<open>(pkg.Error == nil, nil)\<close>.
\<close>

definition Clean ::
  "'w Toolchain \<Rightarrow> ('o, 'r, 'p) Analyzer \<Rightarrow> 'w \<Rightarrow> error option \<times> ('o, 'r, 'p) Analyzer \<times> 'w" where
  "Clean tc a w =
     (let m = Module a;
          (err, w') = go_Clean tc (Go a) [BuildTarget m] w
      in (err, a, w'))"

definition Build ::
  "'w Toolchain \<Rightarrow> ('o, 'r, 'p) Analyzer \<Rightarrow> 'w \<Rightarrow> error option \<times> ('o, 'r, 'p) Analyzer \<times> 'w" where
  "Build tc a w =
     (let m = Module a;
          (err, w') = go_Build tc (Go a) [BuildTarget m] w
      in (err, a, w'))"

definition IsBuilt ::
  "'w Toolchain \<Rightarrow> ('o, 'r, 'p) Analyzer \<Rightarrow> 'w \<Rightarrow>
   (bool \<times> error option) \<times> ('o, 'r, 'p) Analyzer \<times> 'w" where
  "IsBuilt tc a w =
     (let m = Module a;
          (res, w') = go_ListOne tc (Go a) (BuildTarget m) [] (ModulesVendor (Analyzer.Options a)) w
      in (case res of
            Inl err \<Rightarrow> ((False, Some err), a, w')
          | Inr pkg \<Rightarrow> ((Error pkg = None, None), a, w')))"

text \<open>One operation after another: the second runs on the analyzer and the host state
  that the first leaves.\<close>

definition Clean_then_IsBuilt ::
  "'w Toolchain \<Rightarrow> ('o, 'r, 'p) Analyzer \<Rightarrow> 'w \<Rightarrow>
   (bool \<times> error option) \<times> ('o, 'r, 'p) Analyzer \<times> 'w" where
  "Clean_then_IsBuilt tc a w = (case Clean tc a w of (err, a', w') \<Rightarrow> IsBuilt tc a' w')"

definition Build_then_IsBuilt ::
  "'w Toolchain \<Rightarrow> ('o, 'r, 'p) Analyzer \<Rightarrow> 'w \<Rightarrow>
   (bool \<times> error option) \<times> ('o, 'r, 'p) Analyzer \<times> 'w" where
  "Build_then_IsBuilt tc a w = (case Build tc a w of (err, a', w') \<Rightarrow> IsBuilt tc a' w')"

text \<open>What \<open>IsBuilt\<close> makes of a result of \<open>ListOne\<close>: a package was returned and it
  carries no per-package error.\<close>

definition listedWithoutError :: "error + Package \<Rightarrow> bool" where
  "listedWithoutError res = (case res of Inl err \<Rightarrow> False | Inr pkg \<Rightarrow> Error pkg = None)"

text \<open>Field by field, the analyzer \<open>a'\<close> is the analyzer \<open>a\<close>.\<close>

definition unchanged :: "('o, 'r, 'p) Analyzer \<Rightarrow> ('o, 'r, 'p) Analyzer \<Rightarrow> bool" where
  "unchanged a a' =
     (Go a' = Go a \<and> GoVersion a' = GoVersion a \<and> Module a' = Module a
      \<and> Analyzer.Options a' = Analyzer.Options a \<and> BuildTags a' = BuildTags a
      \<and> resolverCache a' = resolverCache a \<and> projectCache a' = projectCache a)"

subsection \<open>Concrete collaborators\<close>

text \<open>A decoder that finds the options already decoded in the module, a locator that
  finds \<open>go\<close>, and an environment with no variable set.\<close>

definition decodeOk :: "Options \<Rightarrow> error + Options" where
  "decodeOk raw = Inr raw"

definition whichGo :: "string \<Rightarrow> string list \<Rightarrow> error + string \<times> string" where
  "whichGo arg cmds = Inr (''go'', ''go version go1.12 linux/amd64'')"

definition getenvUnset :: "string \<Rightarrow> string" where
  "getenvUnset name = ''''"

definition noOptions :: Options where
  "noOptions = \<lparr> Tags = [], AllTags = False, Strategy = '''', LockfilePath = '''',
     ManifestPath = '''', AllowUnresolved = False, AllowUnresolvedPrefix = '''',
     AllowNestedVendor = False, AllowDeepVendor = False, AllowExternalVendor = False,
     AllowExternalVendorPrefix = '''', ModulesVendor = False, SkipImportTracing = False,
     SkipProject = False \<rparr>"

definition appModule :: "Options \<Rightarrow> Options Module" where
  "appModule opts = \<lparr> Dir = ''/src/app'', BuildTarget = ''example.org/app'', Options = opts \<rparr>"

definition appAnalyzer :: "(Options, unit, unit) Analyzer" where
  "appAnalyzer = \<lparr> Go = \<lparr> Cmd = ''go'', Go.Dir = ''/src/app'' \<rparr>,
     GoVersion = ''go version go1.12 linux/amd64'',
     Module = appModule noOptions,
     Options = noOptions,
     BuildTags = [''''],
     resolverCache = make_map,
     projectCache = make_map \<rparr>"

text \<open>A module whose option table gives \<open>all-tags\<close> a value that is not a boolean, and
  the decoder's answer to it.\<close>

definition decodeFails :: "(string \<times> string) list \<Rightarrow> error + Options" where
  "decodeFails raw = Inl (Err ''1 error(s) decoding: all-tags expected type bool'')"

definition badOptionsModule :: "(string \<times> string) list Module" where
  "badOptionsModule = \<lparr> Dir = ''/src/app'', BuildTarget = ''example.org/app'',
     Options = [(''all-tags'', ''maybe'')] \<rparr>"

text \<open>Three toolchains over a host state that lists the packages with build artefacts.
  All three clean by dropping the artefacts of the given packages and build by adding
  them. \<open>goLoadOnly\<close> lists every package without a per-package error, whatever has been
  built; \<open>goArtefacts\<close> reports a per-package error for a package without artefacts;
  \<open>goBroken\<close> cannot list at all.\<close>

definition cleanArtefacts :: "Go \<Rightarrow> string list \<Rightarrow> string list \<Rightarrow> error option \<times> string list" where
  "cleanArtefacts g pkgs w = (None, filter (\<lambda>p. p \<notin> set pkgs) w)"

definition buildArtefacts :: "Go \<Rightarrow> string list \<Rightarrow> string list \<Rightarrow> error option \<times> string list" where
  "buildArtefacts g pkgs w = (None, pkgs @ w)"

definition listLoaded ::
  "Go \<Rightarrow> string \<Rightarrow> string list \<Rightarrow> bool \<Rightarrow> string list \<Rightarrow> (error + Package) \<times> string list" where
  "listLoaded g pkg flags vendor w = (Inr \<lparr> ImportPath = pkg, Error = None \<rparr>, w)"

definition listBuilt ::
  "Go \<Rightarrow> string \<Rightarrow> string list \<Rightarrow> bool \<Rightarrow> string list \<Rightarrow> (error + Package) \<times> string list" where
  "listBuilt g pkg flags vendor w =
     (Inr \<lparr> ImportPath = pkg, Error = (if pkg \<in> set w then None else Some ''not built'') \<rparr>, w)"

definition listFails ::
  "Go \<Rightarrow> string \<Rightarrow> string list \<Rightarrow> bool \<Rightarrow> string list \<Rightarrow> (error + Package) \<times> string list" where
  "listFails g pkg flags vendor w = (Inl (Err ''exit status 1''), w)"

definition goLoadOnly :: "string list Toolchain" where
  "goLoadOnly = \<lparr> go_Clean = cleanArtefacts, go_Build = buildArtefacts, go_ListOne = listLoaded \<rparr>"

definition goArtefacts :: "string list Toolchain" where
  "goArtefacts = \<lparr> go_Clean = cleanArtefacts, go_Build = buildArtefacts, go_ListOne = listBuilt \<rparr>"

definition goBroken :: "string list Toolchain" where
  "goBroken = \<lparr> go_Clean = cleanArtefacts, go_Build = buildArtefacts, go_ListOne = listFails \<rparr>"

text \<open>A fourth toolchain, for a project without a vendor directory: it cleans and builds
  like the others, and its \<open>ListOne\<close> reports a per-package error exactly when asked to
  resolve imports through the vendor directory. \<open>vendorAnalyzer\<close> is the analyzer of the
  module with \<open>modules-vendor\<close> set.\<close>

definition listVendored ::
  "Go \<Rightarrow> string \<Rightarrow> string list \<Rightarrow> bool \<Rightarrow> string list \<Rightarrow> (error + Package) \<times> string list" where
  "listVendored g pkg flags vendor w =
     (Inr \<lparr> ImportPath = pkg,
            Error = (if vendor then Some ''cannot find package in vendor directory'' else None) \<rparr>,
      w)"

definition goNoVendor :: "string list Toolchain" where
  "goNoVendor = \<lparr> go_Clean = cleanArtefacts, go_Build = buildArtefacts, go_ListOne = listVendored \<rparr>"

definition vendorAnalyzer :: "(Options, unit, unit) Analyzer" where
  "vendorAnalyzer = appAnalyzer\<lparr> Module := appModule (noOptions\<lparr>ModulesVendor := True\<rparr>),
     Analyzer.Options := noOptions\<lparr>ModulesVendor := True\<rparr> \<rparr>"

text \<open>Three hosts for the command locator: one on which only \<open>go\<close> runs, one on which
  nothing runs and one on which \<open>go\<close> and \<open>go1.11\<close> run; and an environment that names
  \<open>go1.11\<close>.\<close>

definition runGoOnly :: "string \<Rightarrow> string list \<Rightarrow> error + string" where
  "runGoOnly c argv =
     (if c = ''go'' then Inr ''go version go1.12 linux/amd64''
      else Inl (Err ''executable file not found in $PATH''))"

definition runNothing :: "string \<Rightarrow> string list \<Rightarrow> error + string" where
  "runNothing c argv = Inl (Err ''executable file not found in $PATH'')"

definition runBoth :: "string \<Rightarrow> string list \<Rightarrow> error + string" where
  "runBoth c argv =
     (if c = ''go'' then Inr ''go version go1.12 linux/amd64''
      else if c = ''go1.11'' then Inr ''go version go1.11 linux/amd64''
      else Inl (Err ''executable file not found in $PATH''))"

definition getenvGo111 :: "string \<Rightarrow> string" where
  "getenvGo111 name = (if name = ''FOSSA_GO_CMD'' then ''go1.11'' else '''')"

text \<open>The spec's reading of \<open>all-tags\<close>: one world for every pair of an operating system
  and an architecture, the pair written as the comma-separated tag list that the build
  tool takes.\<close>

definition pairWorld :: "string \<Rightarrow> string \<Rightarrow> string" where
  "pairWorld os arch = os @ '','' @ arch"

section \<open>Properties\<close>

subsection \<open>Auxiliary facts\<close>

lemma New_Inr_fields:
  assumes "New decode which getenv m = Inr a"
  shows "\<exists>options cmd version. decode (Module.Options m) = Inr options
     \<and> which ''version'' [getenv ''FOSSA_GO_CMD'', ''go''] = Inr (cmd, version)
     \<and> a = \<lparr> Go = \<lparr> Cmd = cmd, Go.Dir = Module.Dir m \<rparr>, GoVersion = version, Module = m,
            Options = options,
            BuildTags = (if AllTags options then (Tags options @ osTags) @ archTags
                         else Tags options) @ [''''],
            resolverCache = make_map, projectCache = make_map \<rparr>"
  using assms by (auto simp: New_def Let_def split: sum.splits prod.splits)

lemma New_which_fails:
  assumes "which ''version'' [getenv ''FOSSA_GO_CMD'', ''go''] = Inl e"
  shows "\<exists>err. New decode which getenv m = Inl err"
  using assms by (simp add: New_def split: sum.splits)

lemma New_decode_fails:
  assumes "decode (Module.Options m) = Inl e"
  shows "New decode which getenv m = Inl e"
  using assms by (simp add: New_def)

lemma New_records_located_command:
  assumes "decode (Module.Options m) = Inr options"
      and "which ''version'' [getenv ''FOSSA_GO_CMD'', ''go''] = Inr (cmd, version)"
  shows "\<exists>a. New decode which getenv m = Inr a \<and> Cmd (Go a) = cmd \<and> GoVersion a = version"
  using assms by (simp add: New_def Let_def)

lemma New_app:
  "New decodeOk whichGo getenvUnset (appModule opts)
     = Inr (appAnalyzer\<lparr>Module := appModule opts, Analyzer.Options := opts,
              BuildTags := (if AllTags opts then (Tags opts @ osTags) @ archTags
                            else Tags opts) @ ['''']\<rparr>)"
  by (simp add: New_def decodeOk_def whichGo_def appModule_def appAnalyzer_def Let_def)

lemma New_app_noOptions:
  "New decodeOk whichGo getenvUnset (appModule noOptions) = Inr appAnalyzer"
  by (simp add: New_app) (simp add: appAnalyzer_def noOptions_def)

lemma appAnalyzer_target: "BuildTarget (Module appAnalyzer) = ''example.org/app''"
  by (simp add: appAnalyzer_def appModule_def)

text \<open>The two tag lists have no repetition, so there are 220 pairs of an operating
  system and an architecture; a list of fewer than 220 worlds cannot hold a world of its
  own for each pair, however a pair is written as a world.\<close>

lemma distinct_osTags: "distinct osTags"
  by (simp add: osTags_def)

lemma distinct_archTags: "distinct archTags"
  by (simp add: archTags_def)

lemma card_tag_pairs: "card (set osTags \<times> set archTags) = 220"
proof -
  have "card (set osTags) = 11"
    using distinct_card [OF distinct_osTags] by (simp add: osTags_def)
  moreover have "card (set archTags) = 20"
    using distinct_card [OF distinct_archTags] by (simp add: archTags_def)
  ultimately show ?thesis by (simp add: card_cartesian_product)
qed

lemma no_world_per_pair:
  assumes inj: "inj_on enc (set osTags \<times> set archTags)"
      and len: "length worlds < 220"
  shows "\<not> enc ` (set osTags \<times> set archTags) \<subseteq> set worlds"
proof
  assume sub: "enc ` (set osTags \<times> set archTags) \<subseteq> set worlds"
  have "card (enc ` (set osTags \<times> set archTags)) = 220"
    using card_image [OF inj] card_tag_pairs by simp
  moreover have "card (enc ` (set osTags \<times> set archTags)) \<le> card (set worlds)"
    using sub by (simp add: card_mono)
  moreover have "card (set worlds) \<le> length worlds" by (rule card_length)
  ultimately show False using len by simp
qed

subsection \<open>The worlds that New builds\<close>

text \<open>
  C1, as stated, fails. With \<open>all-tags\<close> set and no user tag, \<open>New\<close> builds 32 worlds:
  the 11 operating-system names, the 20 architecture names and the host world. That is
  fewer than the 220 pairs, and the world of the pair of \<open>linux\<close> and \<open>amd64\<close> is not
  among them.
\<close>

theorem New_allTags_counterexample:
  "\<not> isl (New decodeOk whichGo getenvUnset (appModule (noOptions\<lparr>AllTags := True\<rparr>))
            :: error + (Options, unit, unit) Analyzer)
   \<and> BuildTags (projr (New decodeOk whichGo getenvUnset (appModule (noOptions\<lparr>AllTags := True\<rparr>))
            :: error + (Options, unit, unit) Analyzer))
     = [''windows'', ''linux'', ''freebsd'', ''android'', ''darwin'', ''dragonfly'',
        ''nacl'', ''netbsd'', ''openbsd'', ''plan9'', ''solaris'',
        ''386'', ''amd64'', ''amd64p32'', ''arm'', ''armbe'', ''arm64'', ''arm64be'',
        ''ppc64'', ''ppc64le'', ''mips'', ''mipsle'', ''mips64'', ''mips64le'', ''mips64p32'',
        ''mips64p32le'', ''ppc'', ''s390'', ''s390x'', ''sparc'', ''sparc64'', '''']
   \<and> pairWorld ''linux'' ''amd64''
       \<notin> set (BuildTags (projr (New decodeOk whichGo getenvUnset
                 (appModule (noOptions\<lparr>AllTags := True\<rparr>))
            :: error + (Options, unit, unit) Analyzer)))
   \<and> length (BuildTags (projr (New decodeOk whichGo getenvUnset
                 (appModule (noOptions\<lparr>AllTags := True\<rparr>))
            :: error + (Options, unit, unit) Analyzer))) = 32
   \<and> length (List.product osTags archTags) = 220"
  by (simp add: New_def decodeOk_def whichGo_def appModule_def noOptions_def osTags_def
        archTags_def pairWorld_def)

text \<open>
  C1, amended: when \<open>all-tags\<close> is set, the worlds that a successful \<open>New\<close> builds are
  the tags of the decoded options, then the names of the operating-system list, then the
  names of the architecture list, then the host world.
\<close>

theorem New_allTags_worlds:
  assumes "New decode which getenv m = Inr a" and "AllTags (Analyzer.Options a)"
  shows "decode (Module.Options m) = Inr (Analyzer.Options a)
     \<and> BuildTags a = Tags (Analyzer.Options a) @ osTags @ archTags @ ['''']"
  using New_Inr_fields [OF assms(1)] assms(2) by auto

theorem New_allTags_worlds_witness:
  "New decodeOk whichGo getenvUnset
       (appModule (noOptions\<lparr>Tags := [''integration''], AllTags := True\<rparr>))
     = Inr (appAnalyzer\<lparr>Module := appModule (noOptions\<lparr>Tags := [''integration''], AllTags := True\<rparr>),
              Analyzer.Options := noOptions\<lparr>Tags := [''integration''], AllTags := True\<rparr>,
              BuildTags := ''integration'' # osTags @ archTags @ ['''']\<rparr>)
   \<and> AllTags (noOptions\<lparr>Tags := [''integration''], AllTags := True\<rparr>)
   \<and> BuildTags (appAnalyzer\<lparr>Module := appModule (noOptions\<lparr>Tags := [''integration''], AllTags := True\<rparr>),
              Analyzer.Options := noOptions\<lparr>Tags := [''integration''], AllTags := True\<rparr>,
              BuildTags := ''integration'' # osTags @ archTags @ ['''']\<rparr>)
     = [''integration''] @ osTags @ archTags @ ['''']"
proof -
  let ?o = "noOptions\<lparr>Tags := [''integration''], AllTags := True\<rparr>"
  let ?a = "appAnalyzer\<lparr>Module := appModule ?o, Analyzer.Options := ?o,
              BuildTags := ''integration'' # osTags @ archTags @ ['''']\<rparr>
            :: (Options, unit, unit) Analyzer"
  have h: "New decodeOk whichGo getenvUnset (appModule ?o) = Inr ?a"
    by (simp add: New_app)
  have t: "AllTags (Analyzer.Options ?a)" by (simp add: noOptions_def)
  show ?thesis using h t New_allTags_worlds [OF h t] by simp
qed

text \<open>
  C2: whatever the module and the decoded options, the \<open>BuildTags\<close> of the analyzer that
  a successful \<open>New\<close> returns are not empty, their last element is the empty string of
  the host world, and so the empty string is among them.
\<close>

theorem New_host_world_last:
  assumes "New decode which getenv m = Inr a"
  shows "BuildTags a \<noteq> [] \<and> last (BuildTags a) = '''' \<and> '''' \<in> set (BuildTags a)"
  using New_Inr_fields [OF assms] by auto

theorem New_host_world_last_witness:
  "New decodeOk whichGo getenvUnset (appModule noOptions) = Inr appAnalyzer
   \<and> BuildTags appAnalyzer \<noteq> [] \<and> last (BuildTags appAnalyzer) = ''''
   \<and> '''' \<in> set (BuildTags appAnalyzer)"
  using New_app_noOptions New_host_world_last [OF New_app_noOptions] by simp

text \<open>
  C4: when \<open>all-tags\<close> is not set, the worlds that a successful \<open>New\<close> builds are exactly
  the tags of the decoded options, in their order, followed by the host world.
\<close>

theorem New_user_tags_then_host:
  assumes "New decode which getenv m = Inr a" and "\<not> AllTags (Analyzer.Options a)"
  shows "decode (Module.Options m) = Inr (Analyzer.Options a)
     \<and> BuildTags a = Tags (Analyzer.Options a) @ ['''']"
  using New_Inr_fields [OF assms(1)] assms(2) by auto

theorem New_user_tags_then_host_witness:
  "New decodeOk whichGo getenvUnset (appModule (noOptions\<lparr>Tags := [''integration'', ''e2e'']\<rparr>))
     = Inr (appAnalyzer\<lparr>Module := appModule (noOptions\<lparr>Tags := [''integration'', ''e2e'']\<rparr>),
              Analyzer.Options := noOptions\<lparr>Tags := [''integration'', ''e2e'']\<rparr>,
              BuildTags := [''integration'', ''e2e'', '''']\<rparr>)
   \<and> \<not> AllTags (noOptions\<lparr>Tags := [''integration'', ''e2e'']\<rparr>)
   \<and> BuildTags (appAnalyzer\<lparr>Module := appModule (noOptions\<lparr>Tags := [''integration'', ''e2e'']\<rparr>),
              Analyzer.Options := noOptions\<lparr>Tags := [''integration'', ''e2e'']\<rparr>,
              BuildTags := [''integration'', ''e2e'', '''']\<rparr>)
     = [''integration'', ''e2e''] @ ['''']"
proof -
  let ?o = "noOptions\<lparr>Tags := [''integration'', ''e2e'']\<rparr>"
  let ?a = "appAnalyzer\<lparr>Module := appModule ?o, Analyzer.Options := ?o,
              BuildTags := [''integration'', ''e2e'', '''']\<rparr> :: (Options, unit, unit) Analyzer"
  have h: "New decodeOk whichGo getenvUnset (appModule ?o) = Inr ?a"
    by (simp add: New_app) (simp add: noOptions_def)
  have t: "\<not> AllTags (Analyzer.Options ?a)" by (simp add: noOptions_def)
  show ?thesis using h t New_user_tags_then_host [OF h t] by simp
qed

text \<open>
  C9: in the analyzer that a successful \<open>New\<close> returns, the resolver cache and the
  project cache are allocated maps with no binding, so that storing a first resolver or
  project under a directory succeeds and leaves that one binding.
\<close>

theorem New_caches_empty:
  assumes "New decode which getenv m = Inr a"
  shows "resolverCache a = Some Map.empty \<and> projectCache a = Some Map.empty
     \<and> map_store (resolverCache a) d r = Inr (Some [d \<mapsto> r])
     \<and> map_store (projectCache a) d p = Inr (Some [d \<mapsto> p])"
  using New_Inr_fields [OF assms] by (auto simp: make_map_def map_store_def)

theorem New_caches_empty_witness:
  "New decodeOk whichGo getenvUnset (appModule noOptions) = Inr appAnalyzer
   \<and> resolverCache appAnalyzer = Some Map.empty \<and> projectCache appAnalyzer = Some Map.empty
   \<and> map_store (resolverCache appAnalyzer) ''/src/app'' () = Inr (Some [''/src/app'' \<mapsto> ()])
   \<and> map_store (projectCache appAnalyzer) ''/src/app'' () = Inr (Some [''/src/app'' \<mapsto> ()])"
  using New_app_noOptions
    New_caches_empty [OF New_app_noOptions, of "''/src/app''" "()" "()"]
  by (simp add: appAnalyzer_def make_map_def map_store_def)

subsection \<open>Locating the build tool\<close>

text \<open>
  C5: when neither the command that \<open>FOSSA_GO_CMD\<close> names nor \<open>go\<close> runs on the host,
  \<open>New\<close> returns an error, and so no analyzer, for every module and every decoder.
\<close>

theorem New_tool_not_found:
  assumes "run (getenv ''FOSSA_GO_CMD'') [''version''] = Inl e1"
      and "run ''go'' [''version''] = Inl e2"
  shows "\<exists>err. New decode (Which run) getenv m = Inl err"
proof -
  have "Which run ''version'' [getenv ''FOSSA_GO_CMD'', ''go'']
          = Inl (Err ''could not resolve command'')"
    using assms by simp
  then show ?thesis by (rule New_which_fails)
qed

theorem New_tool_not_found_witness:
  "runNothing (getenvUnset ''FOSSA_GO_CMD'') [''version'']
     = Inl (Err ''executable file not found in $PATH'')
   \<and> runNothing ''go'' [''version''] = Inl (Err ''executable file not found in $PATH'')
   \<and> (\<exists>err. (New decodeOk (Which runNothing) getenvUnset (appModule noOptions)
               :: error + (Options, unit, unit) Analyzer) = Inl err)"
proof -
  have h1: "runNothing (getenvUnset ''FOSSA_GO_CMD'') [''version'']
              = Inl (Err ''executable file not found in $PATH'')"
    by (simp add: runNothing_def)
  have h2: "runNothing ''go'' [''version''] = Inl (Err ''executable file not found in $PATH'')"
    by (simp add: runNothing_def)
  show ?thesis
    using h1 h2 New_tool_not_found [where run = runNothing and getenv = getenvUnset
      and decode = decodeOk and m = "appModule noOptions" and ?'b = unit and ?'c = unit]
    by simp
qed

text \<open>
  C7, as stated, fails. \<open>New\<close> decodes the options before it looks for the tool: on a
  host where both the command that \<open>FOSSA_GO_CMD\<close> names and \<open>go\<close> run, a module whose
  options do not decode makes \<open>New\<close> return the decoder's error, with no tool located.
\<close>

theorem New_decode_fails_counterexample:
  "runBoth (getenvGo111 ''FOSSA_GO_CMD'') [''version''] = Inr ''go version go1.11 linux/amd64''
   \<and> runBoth ''go'' [''version''] = Inr ''go version go1.12 linux/amd64''
   \<and> (New decodeFails (Which runBoth) getenvGo111 badOptionsModule
         :: error + ((string \<times> string) list, unit, unit) Analyzer)
       = Inl (Err ''1 error(s) decoding: all-tags expected type bool'')"
  by (simp add: New_def decodeFails_def runBoth_def getenvGo111_def)

text \<open>
  C7, amended: for every module whose options decode, if the command that
  \<open>FOSSA_GO_CMD\<close> names runs, \<open>New\<close> succeeds, the handle holds that command and
  \<open>GoVersion\<close> holds its output; if it does not run and \<open>go\<close> does, \<open>New\<close> succeeds, the
  handle holds \<open>go\<close> and \<open>GoVersion\<close> holds the output of \<open>go\<close>. So, for such a module, a
  tool is located whenever one of the two runs.
\<close>

theorem New_selects_command:
  assumes "decode (Module.Options m) = Inr options"
  shows "(run (getenv ''FOSSA_GO_CMD'') [''version''] = Inr v \<longrightarrow>
            (\<exists>a. New decode (Which run) getenv m = Inr a
                \<and> Cmd (Go a) = getenv ''FOSSA_GO_CMD'' \<and> GoVersion a = v))
       \<and> (run (getenv ''FOSSA_GO_CMD'') [''version''] = Inl e \<and> run ''go'' [''version''] = Inr v \<longrightarrow>
            (\<exists>a. New decode (Which run) getenv m = Inr a
                \<and> Cmd (Go a) = ''go'' \<and> GoVersion a = v))"
  using assms by (simp add: New_def Let_def)

theorem New_selects_command_witness:
  "decodeOk (Module.Options (appModule noOptions)) = Inr noOptions
   \<and> runBoth (getenvGo111 ''FOSSA_GO_CMD'') [''version''] = Inr ''go version go1.11 linux/amd64''
   \<and> (\<exists>a :: (Options, unit, unit) Analyzer.
         New decodeOk (Which runBoth) getenvGo111 (appModule noOptions) = Inr a
         \<and> Cmd (Go a) = ''go1.11'' \<and> GoVersion a = ''go version go1.11 linux/amd64'')
   \<and> runGoOnly (getenvGo111 ''FOSSA_GO_CMD'') [''version'']
       = Inl (Err ''executable file not found in $PATH'')
   \<and> runGoOnly ''go'' [''version''] = Inr ''go version go1.12 linux/amd64''
   \<and> (\<exists>a :: (Options, unit, unit) Analyzer.
         New decodeOk (Which runGoOnly) getenvGo111 (appModule noOptions) = Inr a
         \<and> Cmd (Go a) = ''go'' \<and> GoVersion a = ''go version go1.12 linux/amd64'')"
proof -
  have d: "decodeOk (Module.Options (appModule noOptions)) = Inr noOptions"
    by (simp add: decodeOk_def appModule_def)
  have e: "getenvGo111 ''FOSSA_GO_CMD'' = ''go1.11''" by (simp add: getenvGo111_def)
  have b: "runBoth (getenvGo111 ''FOSSA_GO_CMD'') [''version'']
             = Inr ''go version go1.11 linux/amd64''"
    by (simp add: e runBoth_def)
  have g1: "runGoOnly (getenvGo111 ''FOSSA_GO_CMD'') [''version'']
              = Inl (Err ''executable file not found in $PATH'')"
    by (simp add: e runGoOnly_def)
  have g2: "runGoOnly ''go'' [''version''] = Inr ''go version go1.12 linux/amd64''"
    by (simp add: runGoOnly_def)
  note first = New_selects_command [where decode = decodeOk and m = "appModule noOptions"
      and options = noOptions and run = runBoth and getenv = getenvGo111
      and v = "''go version go1.11 linux/amd64''" and ?'b = unit and ?'c = unit]
  note second = New_selects_command [where decode = decodeOk and m = "appModule noOptions"
      and options = noOptions and run = runGoOnly and getenv = getenvGo111
      and v = "''go version go1.12 linux/amd64''"
      and e = "Err ''executable file not found in $PATH''" and ?'b = unit and ?'c = unit]
  show ?thesis using d b g1 g2 first second by (simp add: e)
qed

subsection \<open>Clean, Build and IsBuilt over the toolchain\<close>

text \<open>
  C3: when \<open>ListOne\<close> for the module's build target, with no flag (the host world) and
  the \<open>ModulesVendor\<close> switch of the options, returns a package, \<open>IsBuilt\<close> returns
  without error and its answer is true exactly when the package carries no per-package
  error; when \<open>ListOne\<close> fails, \<open>IsBuilt\<close> returns false together with that error.
\<close>

theorem IsBuilt_iff_no_package_error:
  "(go_ListOne tc (Go a) (BuildTarget (Module a)) [] (ModulesVendor (Analyzer.Options a)) w
        = (Inr pkg, w')
      \<longrightarrow> fst (IsBuilt tc a w) = (Error pkg = None, None)
          \<and> (fst (fst (IsBuilt tc a w)) \<longleftrightarrow> Error pkg = None))
   \<and> (go_ListOne tc (Go a) (BuildTarget (Module a)) [] (ModulesVendor (Analyzer.Options a)) w
        = (Inl err, w')
      \<longrightarrow> fst (IsBuilt tc a w) = (False, Some err))"
  by (simp add: IsBuilt_def Let_def)

theorem IsBuilt_iff_no_package_error_witness:
  "go_ListOne goArtefacts (Go appAnalyzer) (BuildTarget (Module appAnalyzer)) []
       (ModulesVendor (Analyzer.Options appAnalyzer)) [''example.org/app'']
     = (Inr \<lparr> ImportPath = ''example.org/app'', Error = None \<rparr>, [''example.org/app''])
   \<and> fst (IsBuilt goArtefacts appAnalyzer [''example.org/app'']) = (True, None)
   \<and> go_ListOne goArtefacts (Go appAnalyzer) (BuildTarget (Module appAnalyzer)) []
       (ModulesVendor (Analyzer.Options appAnalyzer)) []
     = (Inr \<lparr> ImportPath = ''example.org/app'', Error = Some ''not built'' \<rparr>, [])
   \<and> fst (IsBuilt goArtefacts appAnalyzer []) = (False, None)
   \<and> go_ListOne goBroken (Go appAnalyzer) (BuildTarget (Module appAnalyzer)) []
       (ModulesVendor (Analyzer.Options appAnalyzer)) []
     = (Inl (Err ''exit status 1''), [])
   \<and> fst (IsBuilt goBroken appAnalyzer []) = (False, Some (Err ''exit status 1''))"
proof -
  note t = appAnalyzer_target
  have l1: "go_ListOne goArtefacts (Go appAnalyzer) (BuildTarget (Module appAnalyzer)) []
       (ModulesVendor (Analyzer.Options appAnalyzer)) [''example.org/app'']
     = (Inr \<lparr> ImportPath = ''example.org/app'', Error = None \<rparr>, [''example.org/app''])"
    by (simp add: t goArtefacts_def listBuilt_def)
  have l2: "go_ListOne goArtefacts (Go appAnalyzer) (BuildTarget (Module appAnalyzer)) []
       (ModulesVendor (Analyzer.Options appAnalyzer)) []
     = (Inr \<lparr> ImportPath = ''example.org/app'', Error = Some ''not built'' \<rparr>, [])"
    by (simp add: t goArtefacts_def listBuilt_def)
  have l3: "go_ListOne goBroken (Go appAnalyzer) (BuildTarget (Module appAnalyzer)) []
       (ModulesVendor (Analyzer.Options appAnalyzer)) []
     = (Inl (Err ''exit status 1''), [])"
    by (simp add: goBroken_def listFails_def)
  show ?thesis
    using l1 l2 l3
      IsBuilt_iff_no_package_error [of goArtefacts appAnalyzer "[''example.org/app'']"
        "\<lparr> ImportPath = ''example.org/app'', Error = None \<rparr>" "[''example.org/app'']"]
      IsBuilt_iff_no_package_error [of goArtefacts appAnalyzer "[]"
        "\<lparr> ImportPath = ''example.org/app'', Error = Some ''not built'' \<rparr>" "[]"]
      IsBuilt_iff_no_package_error [of goBroken appAnalyzer "[]" _ "[]" "Err ''exit status 1''"]
    by simp
qed

text \<open>
  C6: \<open>Clean\<close> returns what the toolchain's clean returns for the one-element list of
  the module's build target, and \<open>Build\<close> what the toolchain's build returns for that
  list; each leaves the host in the state the toolchain leaves it in, and the analyzer
  as it was.
\<close>

theorem Clean_Build_delegate:
  "Clean tc a w = (fst (go_Clean tc (Go a) [BuildTarget (Module a)] w), a,
                   snd (go_Clean tc (Go a) [BuildTarget (Module a)] w))
   \<and> Build tc a w = (fst (go_Build tc (Go a) [BuildTarget (Module a)] w), a,
                   snd (go_Build tc (Go a) [BuildTarget (Module a)] w))"
  by (simp add: Clean_def Build_def Let_def split: prod.splits)

text \<open>
  C10: the analyzer that \<open>Clean\<close>, \<open>Build\<close> and \<open>IsBuilt\<close> leave is the analyzer they were
  called on, and so is each of its fields: the handle, the version, the module, the
  options, the build tags and the two caches.
\<close>

theorem Clean_Build_IsBuilt_frame:
  "fst (snd (Clean tc a w)) = a \<and> fst (snd (Build tc a w)) = a \<and> fst (snd (IsBuilt tc a w)) = a
   \<and> unchanged a (fst (snd (Clean tc a w)))
   \<and> unchanged a (fst (snd (Build tc a w)))
   \<and> unchanged a (fst (snd (IsBuilt tc a w)))"
  by (simp add: Clean_def Build_def IsBuilt_def unchanged_def Let_def
        split: prod.splits sum.splits)

text \<open>
  C8, as stated, fails in both halves. On a toolchain that cleans and builds the target
  without error and whose \<open>ListOne\<close> reports no per-package error whether or not the
  target has been built, \<open>Clean\<close> followed by \<open>IsBuilt\<close> returns true. On a toolchain
  that cleans and builds the target without error and whose \<open>ListOne\<close> cannot resolve
  the imports through a vendor directory, \<open>Build\<close> followed by \<open>IsBuilt\<close> returns false
  for a module with \<open>modules-vendor\<close> set: \<open>IsBuilt\<close> passes that switch to \<open>ListOne\<close>,
  and \<open>Build\<close> passes nothing but the target.
\<close>

theorem Clean_then_IsBuilt_counterexample:
  "fst (Clean goLoadOnly appAnalyzer [''example.org/app'']) = None
   \<and> fst (Build goLoadOnly appAnalyzer [''example.org/app'']) = None
   \<and> fst (Clean_then_IsBuilt goLoadOnly appAnalyzer [''example.org/app'']) = (True, None)
   \<and> fst (Clean goNoVendor vendorAnalyzer []) = None
   \<and> fst (Build goNoVendor vendorAnalyzer []) = None
   \<and> fst (Build_then_IsBuilt goNoVendor vendorAnalyzer []) = (False, None)"
  by (simp add: Clean_then_IsBuilt_def Build_then_IsBuilt_def Clean_def Build_def IsBuilt_def
        Let_def goLoadOnly_def goNoVendor_def cleanArtefacts_def buildArtefacts_def
        listLoaded_def listVendored_def vendorAnalyzer_def appAnalyzer_def appModule_def
        noOptions_def)

text \<open>
  C8, amended: when the toolchain cleans the target without error, \<open>Clean\<close> followed by
  \<open>IsBuilt\<close> returns false exactly when \<open>ListOne\<close>, in the state the clean leaves, fails
  or reports a per-package error; when the toolchain builds the target without error,
  \<open>Build\<close> followed by \<open>IsBuilt\<close> returns true exactly when \<open>ListOne\<close>, in the state the
  build leaves, returns a package without per-package error.
\<close>

theorem Clean_Build_then_IsBuilt:
  "(go_Clean tc (Go a) [BuildTarget (Module a)] w = (None, wc) \<longrightarrow>
      (\<not> fst (fst (Clean_then_IsBuilt tc a w)))
        = (\<not> listedWithoutError (fst (go_ListOne tc (Go a) (BuildTarget (Module a)) []
                                      (ModulesVendor (Analyzer.Options a)) wc))))
   \<and> (go_Build tc (Go a) [BuildTarget (Module a)] w = (None, wb) \<longrightarrow>
      fst (fst (Build_then_IsBuilt tc a w))
        = listedWithoutError (fst (go_ListOne tc (Go a) (BuildTarget (Module a)) []
                                      (ModulesVendor (Analyzer.Options a)) wb)))"
  by (simp add: Clean_then_IsBuilt_def Build_then_IsBuilt_def Clean_def Build_def IsBuilt_def
        listedWithoutError_def Let_def split: prod.splits sum.splits)

theorem Clean_Build_then_IsBuilt_witness:
  "go_Clean goArtefacts (Go appAnalyzer) [BuildTarget (Module appAnalyzer)] [''example.org/app'']
     = (None, [])
   \<and> \<not> listedWithoutError (fst (go_ListOne goArtefacts (Go appAnalyzer)
         (BuildTarget (Module appAnalyzer)) [] (ModulesVendor (Analyzer.Options appAnalyzer)) []))
   \<and> \<not> fst (fst (Clean_then_IsBuilt goArtefacts appAnalyzer [''example.org/app'']))
   \<and> go_Build goArtefacts (Go appAnalyzer) [BuildTarget (Module appAnalyzer)] []
       = (None, [''example.org/app''])
   \<and> listedWithoutError (fst (go_ListOne goArtefacts (Go appAnalyzer)
         (BuildTarget (Module appAnalyzer)) [] (ModulesVendor (Analyzer.Options appAnalyzer))
         [''example.org/app'']))
   \<and> fst (fst (Build_then_IsBuilt goArtefacts appAnalyzer []))
   \<and> go_Clean goLoadOnly (Go appAnalyzer) [BuildTarget (Module appAnalyzer)] [''example.org/app'']
     = (None, [])
   \<and> listedWithoutError (fst (go_ListOne goLoadOnly (Go appAnalyzer)
         (BuildTarget (Module appAnalyzer)) [] (ModulesVendor (Analyzer.Options appAnalyzer)) []))
   \<and> fst (fst (Clean_then_IsBuilt goLoadOnly appAnalyzer [''example.org/app'']))"
proof -
  note t = appAnalyzer_target
  have c: "go_Clean goArtefacts (Go appAnalyzer) [BuildTarget (Module appAnalyzer)]
             [''example.org/app''] = (None, [])"
    by (simp add: t goArtefacts_def cleanArtefacts_def)
  have b: "go_Build goArtefacts (Go appAnalyzer) [BuildTarget (Module appAnalyzer)] []
             = (None, [''example.org/app''])"
    by (simp add: t goArtefacts_def buildArtefacts_def)
  have c': "go_Clean goLoadOnly (Go appAnalyzer) [BuildTarget (Module appAnalyzer)]
             [''example.org/app''] = (None, [])"
    by (simp add: t goLoadOnly_def cleanArtefacts_def)
  have lc: "\<not> listedWithoutError (fst (go_ListOne goArtefacts (Go appAnalyzer)
         (BuildTarget (Module appAnalyzer)) [] (ModulesVendor (Analyzer.Options appAnalyzer)) []))"
    by (simp add: t goArtefacts_def listBuilt_def listedWithoutError_def)
  have lb: "listedWithoutError (fst (go_ListOne goArtefacts (Go appAnalyzer)
         (BuildTarget (Module appAnalyzer)) [] (ModulesVendor (Analyzer.Options appAnalyzer))
         [''example.org/app'']))"
    by (simp add: t goArtefacts_def listBuilt_def listedWithoutError_def)
  have lc': "listedWithoutError (fst (go_ListOne goLoadOnly (Go appAnalyzer)
         (BuildTarget (Module appAnalyzer)) [] (ModulesVendor (Analyzer.Options appAnalyzer)) []))"
    by (simp add: t goLoadOnly_def listLoaded_def listedWithoutError_def)
  note cleanHalf = Clean_Build_then_IsBuilt [where tc = goArtefacts and a = appAnalyzer
      and w = "[''example.org/app'']" and wc = "[]", THEN conjunct1]
  note buildHalf = Clean_Build_then_IsBuilt [where tc = goArtefacts and a = appAnalyzer
      and w = "[]" and wb = "[''example.org/app'']", THEN conjunct2]
  note cleanHalf' = Clean_Build_then_IsBuilt [where tc = goLoadOnly and a = appAnalyzer
      and w = "[''example.org/app'']" and wc = "[]", THEN conjunct1]
  show ?thesis
    using c b c' lc lb lc' cleanHalf buildHalf cleanHalf' by simp
qed

end
